theory Spec2Isabelle
  imports Complex_Main "HOL-Library.Char_ord" "HOL-Library.List_Lexorder"
begin

section \<open>JavaScript values\<close>

text \<open>
  The models compute with JavaScript numbers. A finite double is represented by the
  rational it denotes (arithmetic on finite values is exact: rounding error and overflow
  are not modelled), and the three non-finite values are kept as they are, so that what
  a division by zero produces is a value of the model. Negative zero is not
  distinguished from zero.
\<close>

datatype jsnum = Number rat | Infinity | NegInfinity | NaN

text \<open>Truthiness of a number: \<open>0\<close> and \<open>NaN\<close> are falsy.\<close>

fun truthy :: "jsnum \<Rightarrow> bool" where
  "truthy (Number x) = (x \<noteq> 0)"
| "truthy Infinity = True"
| "truthy NegInfinity = True"
| "truthy NaN = False"



fun js_sgn :: "jsnum \<Rightarrow> rat" where
  "js_sgn (Number x) = sgn x"
| "js_sgn Infinity = 1"
| "js_sgn NegInfinity = - 1"
| "js_sgn NaN = 0"

definition inf_of_sign :: "rat \<Rightarrow> jsnum" where
  "inf_of_sign s = (if 0 < s then Infinity else if s < 0 then NegInfinity else NaN)"

fun js_neg :: "jsnum \<Rightarrow> jsnum" where
  "js_neg (Number x) = Number (- x)"
| "js_neg Infinity = NegInfinity"
| "js_neg NegInfinity = Infinity"
| "js_neg NaN = NaN"

fun js_add :: "jsnum \<Rightarrow> jsnum \<Rightarrow> jsnum" where
  "js_add NaN b = NaN"
| "js_add a NaN = NaN"
| "js_add (Number x) (Number y) = Number (x + y)"
| "js_add Infinity NegInfinity = NaN"
| "js_add NegInfinity Infinity = NaN"
| "js_add Infinity b = Infinity"
| "js_add a Infinity = Infinity"
| "js_add NegInfinity b = NegInfinity"
| "js_add a NegInfinity = NegInfinity"

definition js_sub :: "jsnum \<Rightarrow> jsnum \<Rightarrow> jsnum" where
  "js_sub a b = js_add a (js_neg b)"

fun js_mul :: "jsnum \<Rightarrow> jsnum \<Rightarrow> jsnum" where
  "js_mul NaN b = NaN"
| "js_mul a NaN = NaN"
| "js_mul (Number x) (Number y) = Number (x * y)"
| "js_mul a b = inf_of_sign (js_sgn a * js_sgn b)"


text \<open>
  A value that reaches the code from outside, as a field of a request or as a parameter
  of a statement: \<open>undefined\<close>, \<open>null\<close>, a boolean, a number, a string, or an object (an
  array is one). Of an object the code below reads one thing, its \<open>length\<close>, and uses it
  as a number: \<open>JObj l\<close> is an object whose \<open>length\<close> property converts to the number \<open>l\<close>
  (\<open>NaN\<close> when it has none; the number of its elements for an array).
\<close>

datatype jsval = JUndefined | JNull | JBool bool | JNum jsnum | JStr string | JObj jsnum

fun truthy_val :: "jsval \<Rightarrow> bool" where
  "truthy_val JUndefined = False"
| "truthy_val JNull = False"
| "truthy_val (JBool b) = b"
| "truthy_val (JNum n) = truthy n"
| "truthy_val (JStr s) = (s \<noteq> [])"
| "truthy_val (JObj l) = True"

text \<open>\<open>a || b\<close>\<close>

definition val_or :: "jsval \<Rightarrow> jsval \<Rightarrow> jsval" where
  "val_or a b = (if truthy_val a then a else b)"

text \<open>
  \<open>c.repeat(count)\<close> for a one-character string \<open>c\<close>. The count is truncated toward zero,
  \<open>NaN\<close> counting as 0. A negative or infinite count throws a \<open>RangeError\<close>, and so does
  a count above the length of the longest string that the engine builds (\<open>limit\<close>);
  \<open>None\<close> is the throw.
\<close>

definition repeat_char :: "nat \<Rightarrow> char \<Rightarrow> jsnum \<Rightarrow> string option" where
  "repeat_char limit c count =
     (case count of
        NaN \<Rightarrow> Some []
      | Infinity \<Rightarrow> None
      | NegInfinity \<Rightarrow> None
      | Number x \<Rightarrow>
          (let n = (if x < 0 then \<lceil>x\<rceil> else \<lfloor>x\<rfloor>)
           in if n < 0 \<or> int limit < n then None else Some (replicate (nat n) c)))"

section \<open>The database\<close>

text \<open>
  The tables, as far as the results below speak of them; a table is the list of its
  rows. \<open>GoldPrice\<close> (models/GoldPrice.js, tables \<open>gold_types\<close> and \<open>gold_prices\<close>) and
  \<open>CurrencyRate\<close> (models/CurrencyRate.js, tables \<open>currencies\<close> and \<open>currency_rates\<close>)
  are the same class up to the names of the tables and of the columns: \<open>gold_type_id\<close>,
  \<open>buy_price\<close>, \<open>sell_price\<close> in the first are \<open>currency_id\<close>, \<open>buy_rate\<close>, \<open>sell_rate\<close>
  in the second, and \<open>getFinalPrice\<close> is \<open>getFinalRate\<close>. The model has each method
  once, under the names of \<open>GoldPrice\<close>, indexed by the store it works on.
\<close>

type_synonym timestamp = nat

datatype store = Gold | Currency

text \<open>A row of \<open>gold_types\<close> or of \<open>currencies\<close> (\<open>inst_code\<close> is \<open>currencies.code\<close>).\<close>

record instrument =
  inst_id :: nat
  inst_code :: string

text \<open>
  A row of \<open>gold_prices\<close> or of \<open>currency_rates\<close>. The price and margin columns are
  \<open>DECIMAL\<close>: exact decimal fractions.
\<close>

record price_row =
  row_id :: nat
  gold_type_id :: nat
  buy_price :: rat
  sell_price :: rat
  spread :: rat
  margin_buy :: rat
  margin_sell :: rat
  is_manual :: bool
  updated_by :: "nat option"
  effective_from :: timestamp
  effective_until :: "timestamp option"

record audit_entry =
  audit_user_id :: "nat option"
  action :: string
  entity_type :: string
  entity_id :: "nat option"

record user_row =
  user_id :: nat
  username :: string
  role :: string
  is_active :: bool

record session_row =
  sid :: string
  session_user_id :: nat

text \<open>
  \<open>instruments\<close> are the reference tables, \<open>prices\<close> the price tables, \<open>store_settings\<close>
  the pairs of \<open>setting_key\<close> and \<open>setting_value\<close>.
\<close>

record database =
  instruments :: "store \<Rightarrow> instrument list"
  prices :: "store \<Rightarrow> price_row list"
  users :: "user_row list"
  sessions :: "session_row list"
  store_settings :: "(string \<times> string) list"
  audit_log :: "audit_entry list"

text \<open>The number of open records (\<open>effective_until IS NULL\<close>) of an instrument.\<close>

definition open_count :: "store \<Rightarrow> nat \<Rightarrow> database \<Rightarrow> nat" where
  "open_count s g db =
     length (filter (\<lambda>r. gold_type_id r = g \<and> effective_until r = None) (prices db s))"


section \<open>The database layer\<close>

text \<open>
  config/database.js is a pool of PostgreSQL connections (package \<open>pg\<close>). Its methods
  \<open>get\<close>, \<open>all\<close> and \<open>run\<close> hand the statement text and the parameter list to
  \<open>pool.query\<close> as they are; an error of the database is logged and thrown on.

  The model classes write their statements in the dialect of SQLite: every parameter
  is a \<open>?\<close>, the clock is \<open>datetime('now')\<close>. PostgreSQL numbers the parameters of a
  statement \<open>$1\<close>, \<open>$2\<close>, ...; a \<open>?\<close> is no placeholder for it, and where the model
  classes write one (for the value after \<open>=\<close>, in a \<open>VALUES\<close> list) the statement does
  not parse. Such a statement fails as a whole: nothing of it is executed, the tables
  stay as they are, and \<open>pool.query\<close> rejects with the error of the database.
  \<open>rejected\<close> recognises these statements by their \<open>?\<close>; none of the statements below
  has one inside quoted text.

  What PostgreSQL answers to a statement that it accepts is outside the model:
  \<open>NotModelled\<close> marks a run that gets that far, and a method passes it on. Each result
  below shows a definite \<open>Returns\<close> or \<open>Throws\<close>.

  The statement texts are those of the source, a line break with its indentation
  written as one space.
\<close>

datatype error = Error string | DatabaseError

datatype 'a outcome = Returns 'a | Throws error | NotModelled

definition rejected :: "string \<Rightarrow> bool" where
  "rejected sql = (CHR ''?'' \<in> set sql)"

text \<open>A row as \<open>pg\<close> returns it: the columns by name.\<close>

type_synonym row = "(string \<times> jsval) list"

record qresult =
  rows :: "row list"
  rowCount :: nat

definition pool_query :: "string \<Rightarrow> jsval list \<Rightarrow> database \<Rightarrow> qresult outcome \<times> database" where
  "pool_query sql params db =
     (if rejected sql then (Throws DatabaseError, db) else (NotModelled, db))"

text \<open>\<open>await\<close>: the next step runs on what the call returns; a throw ends the run.\<close>

definition and_then ::
  "'a outcome \<times> database \<Rightarrow> ('a \<Rightarrow> database \<Rightarrow> 'b outcome \<times> database) \<Rightarrow> 'b outcome \<times> database" where
  "and_then r k =
     (case r of
        (Returns x, db) \<Rightarrow> k x db
      | (Throws err, db) \<Rightarrow> (Throws err, db)
      | (NotModelled, db) \<Rightarrow> (NotModelled, db))"

text \<open>\<open>db.get\<close>: \<open>res.rows[0]\<close>, which is \<open>undefined\<close> (\<open>None\<close>) when no row came back.\<close>

definition db_get :: "string \<Rightarrow> jsval list \<Rightarrow> database \<Rightarrow> row option outcome \<times> database" where
  "db_get sql params db =
     and_then (pool_query sql params db)
       (\<lambda>res db'. (Returns (case rows res of [] \<Rightarrow> None | r # _ \<Rightarrow> Some r), db'))"

text \<open>\<open>db.run\<close>: \<open>{ id: res.rows[0]?.id || null, changes: res.rowCount }\<close>.\<close>

record run_result =
  res_id :: jsval
  changes :: nat

definition column :: "row \<Rightarrow> string \<Rightarrow> jsval" where
  "column r name = (case map_of r name of None \<Rightarrow> JUndefined | Some v \<Rightarrow> v)"

definition db_run :: "string \<Rightarrow> jsval list \<Rightarrow> database \<Rightarrow> run_result outcome \<times> database" where
  "db_run sql params db =
     and_then (pool_query sql params db)
       (\<lambda>res db'.
          (Returns \<lparr> res_id = (case rows res of
                                  [] \<Rightarrow> JNull
                                | r # _ \<Rightarrow> val_or (column r ''id'') JNull),
                      changes = rowCount res \<rparr>, db'))"

section \<open>Price objects and the margin calculator\<close>

text \<open>
  An instance of \<open>GoldPrice\<close> or of \<open>CurrencyRate\<close> with numbers in its price and margin
  fields.
\<close>

record price =
  objId :: "nat option"
  goldTypeId :: "nat option"
  buyPrice :: jsnum
  sellPrice :: jsnum
  objSpread :: jsnum
  marginBuy :: jsnum
  marginSell :: jsnum
  isManual :: bool
  updatedBy :: "nat option"
  effectiveFrom :: "timestamp option"
  effectiveUntil :: "timestamp option"
  currencyCode :: "string option"

definition calculateSpread :: "price \<Rightarrow> jsnum" where
  "calculateSpread p = js_sub (sellPrice p) (buyPrice p)"

definition calculateMargin :: "string \<Rightarrow> price \<Rightarrow> jsnum" where
  "calculateMargin ty p =
     (let pr = (if ty = ''buy'' then buyPrice p else sellPrice p);
          margin = (if ty = ''buy'' then marginBuy p else marginSell p)
      in js_mul pr margin)"

definition getFinalPrice :: "string \<Rightarrow> price \<Rightarrow> jsnum" where
  "getFinalPrice ty p =
     (let pr = (if ty = ''buy'' then buyPrice p else sellPrice p);
          margin = calculateMargin ty p
      in if ty = ''buy'' then js_add pr margin else js_sub pr margin)"

text \<open>\<open>CurrencyRate.getFinalRate\<close>, the same method under its other name.\<close>

definition getFinalRate :: "string \<Rightarrow> price \<Rightarrow> jsnum" where
  "getFinalRate ty p =
     (let rate = (if ty = ''buy'' then buyPrice p else sellPrice p);
          margin = calculateMargin ty p
      in if ty = ''buy'' then js_add rate margin else js_sub rate margin)"

definition convertFromBase :: "jsnum \<Rightarrow> string \<Rightarrow> price \<Rightarrow> jsnum" where
  "convertFromBase amount ty p = js_mul amount (getFinalRate ty p)"


section \<open>The price version store\<close>

text \<open>
  Every method of the store opens with a statement that has a \<open>?\<close>. The model has a
  method up to that statement, with the checks on its answer that read no column of a
  row; a run that gets past them ends in \<open>NotModelled\<close>. Each method wraps its body in
  \<open>try\<close> and, in \<open>catch\<close>, logs the error and throws it on.
\<close>

definition findById_sql :: "store \<Rightarrow> string" where
  "findById_sql s =
     (case s of
        Gold \<Rightarrow> ''SELECT gp.*, gt.name_ar as gold_type_name, gt.name_en as gold_type_name_en, gt.karat, gt.purity FROM gold_prices gp JOIN gold_types gt ON gp.gold_type_id = gt.id WHERE gp.id = ?''
      | Currency \<Rightarrow> ''SELECT cr.*, c.code as currency_code, c.name_ar as currency_name, c.name_en as currency_name_en, c.symbol as currency_symbol, c.flag_emoji, c.is_base FROM currency_rates cr JOIN currencies c ON cr.currency_id = c.id WHERE cr.id = ?'')"

definition getCurrent_sql :: "store \<Rightarrow> string" where
  "getCurrent_sql s =
     (case s of
        Gold \<Rightarrow> ''SELECT gp.*, gt.name_ar as gold_type_name, gt.name_en as gold_type_name_en, gt.karat, gt.purity FROM gold_prices gp JOIN gold_types gt ON gp.gold_type_id = gt.id WHERE gp.gold_type_id = ? AND gp.effective_from <= datetime('now') AND (gp.effective_until IS NULL OR gp.effective_until > datetime('now')) ORDER BY gp.effective_from DESC LIMIT 1''
      | Currency \<Rightarrow> ''SELECT cr.*, c.code as currency_code, c.name_ar as currency_name, c.name_en as currency_name_en, c.symbol as currency_symbol, c.flag_emoji, c.is_base FROM currency_rates cr JOIN currencies c ON cr.currency_id = c.id WHERE cr.currency_id = ? AND cr.effective_from <= datetime('now') AND (cr.effective_until IS NULL OR cr.effective_until > datetime('now')) ORDER BY cr.effective_from DESC LIMIT 1'')"

definition getCurrentByCode_sql :: string where
  "getCurrentByCode_sql =
     ''SELECT cr.*, c.code as currency_code, c.name_ar as currency_name, c.name_en as currency_name_en, c.symbol as currency_symbol, c.flag_emoji, c.is_base FROM currency_rates cr JOIN currencies c ON cr.currency_id = c.id WHERE c.code = ? AND cr.effective_from <= datetime('now') AND (cr.effective_until IS NULL OR cr.effective_until > datetime('now')) ORDER BY cr.effective_from DESC LIMIT 1''"

text \<open>The statement by which \<open>create\<close> closes the open records of the instrument.\<close>

definition close_sql :: "store \<Rightarrow> string" where
  "close_sql s =
     (case s of
        Gold \<Rightarrow> ''UPDATE gold_prices SET effective_until = datetime('now') WHERE gold_type_id = ? AND effective_until IS NULL''
      | Currency \<Rightarrow> ''UPDATE currency_rates SET effective_until = datetime('now') WHERE currency_id = ? AND effective_until IS NULL'')"

definition id_param :: "nat \<Rightarrow> jsval" where
  "id_param i = JNum (Number (of_nat i))"

text \<open>
  \<open>findById\<close>: \<open>row ? new GoldPrice(row) : null\<close> on the row that \<open>db.get\<close> returns.
\<close>

definition findById :: "store \<Rightarrow> nat \<Rightarrow> database \<Rightarrow> price option outcome \<times> database" where
  "findById s ident db =
     and_then (db_get (findById_sql s) [id_param ident] db)
       (\<lambda>row db'. case row of None \<Rightarrow> (Returns None, db') | Some r \<Rightarrow> (NotModelled, db'))"

text \<open>\<open>getCurrentPrice(goldTypeId)\<close> and \<open>getCurrentRate(currencyId)\<close>.\<close>

definition getCurrentPrice :: "store \<Rightarrow> nat \<Rightarrow> database \<Rightarrow> price option outcome \<times> database" where
  "getCurrentPrice s g db =
     and_then (db_get (getCurrent_sql s) [id_param g] db)
       (\<lambda>row db'. case row of None \<Rightarrow> (Returns None, db') | Some r \<Rightarrow> (NotModelled, db'))"

definition getCurrentRate :: "nat \<Rightarrow> database \<Rightarrow> price option outcome \<times> database" where
  "getCurrentRate currencyId db = getCurrentPrice Currency currencyId db"

text \<open>\<open>toUpperCase\<close> on the letters a to z; other characters stay.\<close>

definition toUpperCase :: "string \<Rightarrow> string" where
  "toUpperCase str =
     map (\<lambda>c. case map_of (zip ''abcdefghijklmnopqrstuvwxyz'' ''ABCDEFGHIJKLMNOPQRSTUVWXYZ'') c of
                 None \<Rightarrow> c | Some u \<Rightarrow> u) str"

definition getCurrentRateByCode :: "string \<Rightarrow> database \<Rightarrow> price option outcome \<times> database" where
  "getCurrentRateByCode code db =
     and_then (db_get getCurrentByCode_sql [JStr (toUpperCase code)] db)
       (\<lambda>row db'. case row of None \<Rightarrow> (Returns None, db') | Some r \<Rightarrow> (NotModelled, db'))"

text \<open>
  The \<open>priceData\<close> argument of \<open>create\<close> and \<open>update\<close>: an object of which every field
  may be absent (\<open>None\<close> is \<open>undefined\<close>).
\<close>

record priceData =
  d_goldTypeId :: "nat option"
  d_buyPrice :: "jsnum option"
  d_sellPrice :: "jsnum option"
  d_marginBuy :: "jsnum option"
  d_marginSell :: "jsnum option"
  d_isManual :: "bool option"

text \<open>
  \<open>create(priceData, updatedBy)\<close>. Its first statement is the \<open>UPDATE\<close> that closes the
  open records of \<open>priceData.goldTypeId\<close>; the \<open>INSERT\<close> of the new record, \<open>logChange\<close>
  and the \<open>findById\<close> of the inserted id follow it.
\<close>

definition create ::
  "store \<Rightarrow> priceData \<Rightarrow> nat option \<Rightarrow> database \<Rightarrow> price option outcome \<times> database" where
  "create s pd by db =
     and_then (db_run (close_sql s)
                 [case d_goldTypeId pd of None \<Rightarrow> JUndefined | Some g \<Rightarrow> id_param g] db)
       (\<lambda>closed db'. (NotModelled, db'))"

definition not_found :: "store \<Rightarrow> error" where
  "not_found s =
     (case s of Gold \<Rightarrow> Error ''Gold price not found''
              | Currency \<Rightarrow> Error ''Currency rate not found'')"

text \<open>
  \<open>update(id, priceData, updatedBy)\<close>. It looks the record up by \<open>findById\<close> and throws
  when there is none; with the record it goes to \<open>create\<close> (an open record) or to an
  \<open>UPDATE\<close> by id (a closed one).
\<close>

definition update ::
  "store \<Rightarrow> nat \<Rightarrow> priceData \<Rightarrow> nat option \<Rightarrow> database \<Rightarrow> price option outcome \<times> database" where
  "update s ident pd by db =
     and_then (findById s ident db)
       (\<lambda>found db'. case found of
                      None \<Rightarrow> (Throws (not_found s), db')
                    | Some p \<Rightarrow> (NotModelled, db'))"

text \<open>A sequence of \<open>create\<close> calls, each on the state that the one before left.\<close>

record create_call =
  call_store :: store
  call_data :: priceData
  call_by :: "nat option"

fun run_creates :: "create_call list \<Rightarrow> database \<Rightarrow> database" where
  "run_creates [] db = db"
| "run_creates (c # cs) db =
     run_creates cs (snd (create (call_store c) (call_data c) (call_by c) db))"

section \<open>Currency conversion\<close>

text \<open>
  \<open>convert(amount, fromCode, toCode, type)\<close> looks up the current rate of both codes
  and throws when one is missing. With both rates it divides by the final rate of the
  first (\<open>convertToBase\<close>), multiplies by the final rate of the second
  (\<open>convertFromBase\<close>) and rounds; no other check and no other error is in its body.
\<close>

text \<open>The object that \<open>convert\<close> returns.\<close>

record conversion =
  conv_amount :: jsnum
  conv_from :: string
  conv_to :: string
  conv_result :: jsnum
  conv_rate :: jsnum

definition convert ::
  "jsnum \<Rightarrow> string \<Rightarrow> string \<Rightarrow> string \<Rightarrow> database \<Rightarrow> conversion outcome \<times> database" where
  "convert amount fromCode toCode ty db =
     and_then (getCurrentRateByCode fromCode db)
       (\<lambda>fromRate db1.
          and_then (getCurrentRateByCode toCode db1)
            (\<lambda>toRate db2.
               case (fromRate, toRate) of
                 (Some f, Some t) \<Rightarrow> (NotModelled, db2)
               | _ \<Rightarrow> (Throws (Error ''Currency rate not found''), db2)))"

section \<open>Market hours\<close>

text \<open>
  The object that \<open>StoreSettings.getMarketSettings\<close> returns. \<open>isMarketOpen\<close> takes it,
  together with the day index (0 is Sunday) and the \<open>HH:MM\<close> string that it derives from
  the clock in the configured timezone. Strings compare by code unit, lexicographically.
\<close>

record marketSettings =
  openTime :: string
  closeTime :: string
  timezone :: string
  days :: "jsnum list"

definition isMarketOpen :: "marketSettings \<Rightarrow> int \<Rightarrow> string \<Rightarrow> bool" where
  "isMarketOpen settings currentDay currentTime =
     (if Number (of_int currentDay) \<notin> set (days settings) then False
      else currentTime \<ge> openTime settings \<and> currentTime \<le> closeTime settings)"

text \<open>
  \<open>StoreSettings.get(key, defaultValue)\<close>: the typed value of the row with that key,
  \<open>defaultValue\<close> when there is no such row, and, in \<open>catch\<close>, \<open>defaultValue\<close> again when
  the statement throws.
\<close>

definition StoreSettings_get :: "string \<Rightarrow> jsval \<Rightarrow> database \<Rightarrow> jsval outcome \<times> database" where
  "StoreSettings_get key defaultValue db =
     (case db_get ''SELECT * FROM store_settings WHERE setting_key = ?'' [JStr key] db of
        (Returns None, db') \<Rightarrow> (Returns defaultValue, db')
      | (Returns (Some r), db') \<Rightarrow> (NotModelled, db')
      | (Throws err, db') \<Rightarrow> (Returns defaultValue, db')
      | (NotModelled, db') \<Rightarrow> (NotModelled, db'))"

text \<open>
  \<open>getMarketSettings\<close> reads four keys, each with the default \<open>''\<close>. The days are
  \<open>[1, 2, 3, 4, 5, 6]\<close> when \<open>market_days\<close> is falsy; the parse of a stored list of days
  is outside the model, and so is a value that is no string.
\<close>

definition default_days :: "jsnum list" where
  "default_days = [Number 1, Number 2, Number 3, Number 4, Number 5, Number 6]"

definition getMarketSettings :: "database \<Rightarrow> marketSettings outcome \<times> database" where
  "getMarketSettings db =
     and_then (StoreSettings_get ''market_open_time'' (JStr []) db) (\<lambda>market_open_time db1.
     and_then (StoreSettings_get ''market_close_time'' (JStr []) db1) (\<lambda>market_close_time db2.
     and_then (StoreSettings_get ''market_timezone'' (JStr []) db2) (\<lambda>market_timezone db3.
     and_then (StoreSettings_get ''market_days'' (JStr []) db3) (\<lambda>market_days db4.
       case (market_open_time, market_close_time, market_timezone, market_days) of
         (JStr ot, JStr ct, JStr tz, JStr ds) \<Rightarrow>
           (if ds = []
            then Returns \<lparr> openTime = ot, closeTime = ct, timezone = tz, days = default_days \<rparr>
            else NotModelled, db4)
       | _ \<Rightarrow> (NotModelled, db4)))))"

text \<open>
  \<open>StoreSettings.isMarketOpen()\<close>. \<open>clock\<close> stands for \<open>new Date()\<close> read in a timezone:
  the day index and the first five characters of the time string, \<open>None\<close> when the
  timezone is not one that the engine knows (the read throws). The timezone is
  \<open>settings.timezone || 'Asia/Riyadh'\<close>. Any throw is caught and answered \<open>false\<close>.
\<close>

definition StoreSettings_isMarketOpen ::
  "(string \<Rightarrow> (int \<times> string) option) \<Rightarrow> database \<Rightarrow> bool outcome \<times> database" where
  "StoreSettings_isMarketOpen clock db =
     (case getMarketSettings db of
        (Returns settings, db') \<Rightarrow>
          (case clock (if timezone settings = [] then ''Asia/Riyadh'' else timezone settings) of
             None \<Rightarrow> (Returns False, db')
           | Some (currentDay, currentTime) \<Rightarrow>
               (Returns (isMarketOpen settings currentDay currentTime), db'))
      | (Throws err, db') \<Rightarrow> (Returns False, db')
      | (NotModelled, db') \<Rightarrow> (NotModelled, db'))"

section \<open>CSRF protection\<close>

text \<open>
  Of a request: its method, the three places a token is looked for
  (\<open>req.headers['x-csrf-token']\<close>, \<open>req.body?._csrf\<close>, \<open>req.query?._csrf\<close>), which hold
  what the client sent, and \<open>req.session?.csrfToken\<close>, which the login controller sets
  to a generated string (\<open>None\<close> is \<open>undefined\<close>).
\<close>

record request =
  req_method :: string
  header_csrf :: jsval
  body_csrf :: jsval
  query_csrf :: jsval
  session_csrfToken :: "string option"

text \<open>What the middleware does with the request: \<open>next()\<close>, or a JSON response.\<close>

datatype response = Next | Json nat string

text \<open>
  A call of \<open>console.log\<close> with a message and an object (its properties by name), or of
  \<open>console.error\<close> with a message and an error.
\<close>

datatype console_line = Log string "(string \<times> string) list" | LogError string

text \<open>The server's state as far as the middleware reaches it: the database and the console.\<close>

record server =
  srv_db :: database
  console :: "console_line list"

text \<open>
  \<open>Security.maskSensitive(data, visibleChars)\<close>. A value that is no string, and a string
  of at most \<open>2 * visibleChars\<close> characters, is masked as \<open>'*'.repeat(data.length)\<close>; the
  read of \<open>length\<close> throws on \<open>undefined\<close> and \<open>null\<close>, and \<open>repeat\<close> throws on a count that
  it does not take. \<open>data.slice(-visibleChars)\<close> is the whole string when
  \<open>visibleChars\<close> is 0. \<open>None\<close> is a throw.
\<close>

definition maskSensitive :: "nat \<Rightarrow> jsval \<Rightarrow> nat \<Rightarrow> string option" where
  "maskSensitive limit data visibleChars =
     (case data of
        JStr s \<Rightarrow>
          (if length s \<le> visibleChars * 2 then Some (replicate (length s) (CHR ''*''))
           else Some (take visibleChars s
                      @ replicate (length s - visibleChars * 2) (CHR ''*'')
                      @ (if visibleChars = 0 then s else drop (length s - visibleChars) s)))
      | JObj l \<Rightarrow> repeat_char limit (CHR ''*'') l
      | JNum n \<Rightarrow> repeat_char limit (CHR ''*'') NaN
      | JBool b \<Rightarrow> repeat_char limit (CHR ''*'') NaN
      | JUndefined \<Rightarrow> None
      | JNull \<Rightarrow> None)"

text \<open>
  \<open>logSecurityEvent\<close> calls \<open>console.log\<close> with the event and the details object. Its
  \<open>INSERT INTO audit_log\<close> is commented out in the source: the database is not touched.
\<close>

definition logSecurityEvent ::
  "string \<Rightarrow> request \<Rightarrow> (string \<times> string) list \<Rightarrow> server \<Rightarrow> server" where
  "logSecurityEvent eventType req details srv =
     srv\<lparr>console := console srv @ [Log (''[SECURITY EVENT] '' @ eventType @ '':'') details]\<rparr>"

text \<open>\<open>req.headers['x-csrf-token'] || req.body?._csrf || req.query?._csrf\<close>\<close>

definition csrfToken_of :: "request \<Rightarrow> jsval" where
  "csrfToken_of req = val_or (val_or (header_csrf req) (body_csrf req)) (query_csrf req)"

text \<open>
  \<open>!sessionToken || csrfToken !== sessionToken\<close>: the session has no token, or an empty
  one, or the supplied value is not that very string.
\<close>

definition token_mismatch :: "jsval \<Rightarrow> string option \<Rightarrow> bool" where
  "token_mismatch csrfToken sessionToken =
     (case sessionToken of
        None \<Rightarrow> True
      | Some t \<Rightarrow> (if t = [] then True else csrfToken \<noteq> JStr t))"

text \<open>
  The middleware. Its body runs in \<open>try\<close>: a throw of \<open>maskSensitive\<close> is caught, logged
  with \<open>console.error\<close> and answered with status 500.
\<close>

definition csrfProtection :: "nat \<Rightarrow> request \<Rightarrow> server \<Rightarrow> response \<times> server" where
  "csrfProtection limit req srv =
     (if req_method req \<in> set [''GET'', ''HEAD'', ''OPTIONS''] then (Next, srv)
      else
        let csrfToken = csrfToken_of req
        in if \<not> truthy_val csrfToken then (Json 403 ''CSRF_MISSING'', srv)
           else
             let sessionToken = session_csrfToken req
             in if token_mismatch csrfToken sessionToken then
                  (case maskSensitive limit csrfToken 4 of
                     None \<Rightarrow>
                       (Json 500 ''SECURITY_ERROR'',
                        srv\<lparr>console := console srv @ [LogError ''CSRF protection error:'']\<rparr>)
                   | Some masked \<Rightarrow>
                       (Json 403 ''CSRF_INVALID'',
                        logSecurityEvent ''INVALID_CSRF'' req [(''providedToken'', masked)] srv))
                else (Next, srv))"

section \<open>Users\<close>

text \<open>An instance of \<open>User\<close>, as far as \<open>delete\<close> reads it.\<close>

record User =
  userId :: nat
  userRole :: string
  isActive :: bool




section \<open>Example states\<close>

text \<open>
  A database with the seeded reference rows and settings, two versions of the price of
  the first gold type (one closed, one open), an open rate for the US dollar, whose
  sell margin of 1 makes its final sell rate zero, and one for the Saudi riyal.
\<close>

definition gold24 :: instrument where
  "gold24 = \<lparr>inst_id = 1, inst_code = ''''\<rparr>"

definition usd :: instrument where "usd = \<lparr>inst_id = 1, inst_code = ''USD''\<rparr>"

definition sar :: instrument where "sar = \<lparr>inst_id = 3, inst_code = ''SAR''\<rparr>"

definition closed_row :: price_row where
  "closed_row =
     \<lparr> row_id = 1, gold_type_id = 1, buy_price = 100, sell_price = 102,
       spread = 2, margin_buy = 2 / 100, margin_sell = 2 / 100,
       is_manual = True, updated_by = Some 1, effective_from = 5, effective_until = Some 7 \<rparr>"

definition open_row :: price_row where
  "open_row =
     \<lparr> row_id = 2, gold_type_id = 1, buy_price = 100, sell_price = 102,
       spread = 2, margin_buy = 2 / 100, margin_sell = 2 / 100,
       is_manual = True, updated_by = Some 1, effective_from = 8, effective_until = None \<rparr>"

definition usd_row :: price_row where
  "usd_row =
     \<lparr> row_id = 1, gold_type_id = 1, buy_price = 1, sell_price = 1,
       spread = 0, margin_buy = 0, margin_sell = 1,
       is_manual = True, updated_by = Some 1, effective_from = 10, effective_until = None \<rparr>"

definition sar_row :: price_row where
  "sar_row =
     \<lparr> row_id = 2, gold_type_id = 3, buy_price = 375 / 100, sell_price = 376 / 100,
       spread = 1 / 100, margin_buy = 0, margin_sell = 0,
       is_manual = True, updated_by = Some 1, effective_from = 10, effective_until = None \<rparr>"

definition example_db :: database where
  "example_db =
     \<lparr> instruments = (\<lambda>s. case s of Gold \<Rightarrow> [gold24] | Currency \<Rightarrow> [usd, sar]),
       prices = (\<lambda>s. case s of Gold \<Rightarrow> [closed_row, open_row]
                              | Currency \<Rightarrow> [usd_row, sar_row]),
       users = [\<lparr>user_id = 1, username = ''admin'', role = ''admin'', is_active = True\<rparr>,
                \<lparr>user_id = 2, username = ''omar'', role = ''user'', is_active = True\<rparr>],
       sessions = [\<lparr>sid = ''s1'', session_user_id = 1\<rparr>],
       store_settings = [(''market_open_time'', ''08:00''), (''market_close_time'', ''22:00''),
                         (''market_timezone'', ''Asia/Riyadh''), (''market_days'', ''1,2,3,4,5,6'')],
       audit_log = [] \<rparr>"


definition example_data :: priceData where
  "example_data =
     \<lparr> d_goldTypeId = Some 1, d_buyPrice = Some (Number 101), d_sellPrice = Some (Number 103),
       d_marginBuy = Some (Number (2 / 100)), d_marginSell = Some (Number (2 / 100)),
       d_isManual = Some True \<rparr>"

definition example_calls :: "create_call list" where
  "example_calls =
     [\<lparr> call_store = Gold, call_data = example_data, call_by = Some 1 \<rparr>,
      \<lparr> call_store = Gold, call_data = example_data, call_by = Some 1 \<rparr>]"

definition example_update :: priceData where
  "example_update =
     \<lparr> d_goldTypeId = None, d_buyPrice = None, d_sellPrice = None,
       d_marginBuy = Some (Number 0), d_marginSell = None, d_isManual = Some False \<rparr>"

text \<open>A clock that reads Monday, 12:00, in every timezone.\<close>

definition monday_noon :: "string \<Rightarrow> (int \<times> string) option" where
  "monday_noon tz = Some (1, ''12:00'')"

text \<open>
  A server, the length of the longest string of V8 on a 64-bit machine, a request whose
  token differs from the session's in the case of its last letter, and a request whose
  body carries the object \<open>{ length: -1 }\<close> for a token.
\<close>

definition example_server :: server where
  "example_server = \<lparr> srv_db = example_db, console = [] \<rparr>"

definition example_limit :: nat where
  "example_limit = 536870888"

definition example_request :: request where
  "example_request =
     \<lparr> req_method = ''POST'', header_csrf = JStr ''0123456789abcdef'', body_csrf = JUndefined,
       query_csrf = JUndefined, session_csrfToken = Some ''0123456789abcdeF'' \<rparr>"

definition example_object_request :: request where
  "example_object_request =
     \<lparr> req_method = ''POST'', header_csrf = JUndefined, body_csrf = JObj (Number (- 1)),
       query_csrf = JUndefined, session_csrfToken = Some ''0123456789abcdeF'' \<rparr>"

section \<open>Results\<close>

subsection \<open>The margin calculator\<close>

text \<open>
  C3. For every finite raw rate \<open>r\<close> and margin fraction \<open>m\<close> the final quoted price is
  \<open>r + r * m\<close> for type \<open>buy\<close> and \<open>r - r * m\<close> for type \<open>sell\<close>, in \<open>getFinalPrice\<close>
  and in \<open>getFinalRate\<close>; a raw rate of 100 with margin 0.02 quotes 102 to buy and 98
  to sell, and the spread of buy 98 and sell 102 is 4.
\<close>

theorem final_rate_buy_up_sell_down:
  "getFinalPrice ''buy'' (p\<lparr>buyPrice := Number r, marginBuy := Number m\<rparr>) = Number (r + r * m)
   \<and> getFinalPrice ''sell'' (p\<lparr>sellPrice := Number r, marginSell := Number m\<rparr>) = Number (r - r * m)
   \<and> getFinalRate ''buy'' (p\<lparr>buyPrice := Number r, marginBuy := Number m\<rparr>) = Number (r + r * m)
   \<and> getFinalRate ''sell'' (p\<lparr>sellPrice := Number r, marginSell := Number m\<rparr>) = Number (r - r * m)
   \<and> getFinalRate ''buy'' (p\<lparr>buyPrice := Number 100, marginBuy := Number (2 / 100)\<rparr>) = Number 102
   \<and> getFinalRate ''sell'' (p\<lparr>sellPrice := Number 100, marginSell := Number (2 / 100)\<rparr>) = Number 98
   \<and> calculateSpread (p\<lparr>buyPrice := Number 98, sellPrice := Number 102\<rparr>) = Number 4"
  by (simp add: getFinalPrice_def getFinalRate_def calculateMargin_def calculateSpread_def
      js_sub_def)

subsection \<open>Statements that PostgreSQL rejects\<close>

lemma rejected_findById: "rejected (findById_sql s)"
  by (cases s) (simp_all add: rejected_def findById_sql_def)

lemma rejected_getCurrent: "rejected (getCurrent_sql s)"
  by (cases s) (simp_all add: rejected_def getCurrent_sql_def)

lemma rejected_getCurrentByCode: "rejected getCurrentByCode_sql"
  by (simp add: rejected_def getCurrentByCode_sql_def)

lemma rejected_close: "rejected (close_sql s)"
  by (cases s) (simp_all add: rejected_def close_sql_def)


lemma rejected_setting: "rejected ''SELECT * FROM store_settings WHERE setting_key = ?''"
  by (simp add: rejected_def)

lemma db_get_rejected: "rejected sql \<Longrightarrow> db_get sql params db = (Throws DatabaseError, db)"
  by (simp add: db_get_def pool_query_def and_then_def)

lemma db_run_rejected: "rejected sql \<Longrightarrow> db_run sql params db = (Throws DatabaseError, db)"
  by (simp add: db_run_def pool_query_def and_then_def)

lemma findById_throws: "findById s ident db = (Throws DatabaseError, db)"
  by (simp add: findById_def db_get_rejected [OF rejected_findById] and_then_def)

lemma getCurrentPrice_throws: "getCurrentPrice s g db = (Throws DatabaseError, db)"
  by (simp add: getCurrentPrice_def db_get_rejected [OF rejected_getCurrent] and_then_def)

lemma getCurrentRateByCode_throws: "getCurrentRateByCode code db = (Throws DatabaseError, db)"
  by (simp add: getCurrentRateByCode_def db_get_rejected [OF rejected_getCurrentByCode]
      and_then_def)

lemma create_throws: "create s pd by db = (Throws DatabaseError, db)"
  by (simp add: create_def db_run_rejected [OF rejected_close] and_then_def)

lemma update_throws: "update s ident pd by db = (Throws DatabaseError, db)"
  by (simp add: update_def findById_throws and_then_def)

lemma convert_throws: "convert amount fromCode toCode ty db = (Throws DatabaseError, db)"
  by (simp add: convert_def getCurrentRateByCode_throws and_then_def)



lemma StoreSettings_get_default:
  "StoreSettings_get key defaultValue db = (Returns defaultValue, db)"
  by (simp add: StoreSettings_get_def db_get_rejected [OF rejected_setting])

lemma getMarketSettings_defaults:
  "getMarketSettings db =
     (Returns \<lparr> openTime = [], closeTime = [], timezone = [], days = default_days \<rparr>, db)"
  by (simp add: getMarketSettings_def StoreSettings_get_default and_then_def)

lemma run_creates_id: "run_creates calls db = db"
  by (induction calls arbitrary: db) (simp_all add: create_throws)


subsection \<open>The price version store\<close>

text \<open>
  C1. \<open>create\<close> does not close the open records of the instrument and inserts no
  record: its first statement, the \<open>UPDATE\<close> that would close them, is rejected by the
  database, and \<open>create\<close> throws that error with the tables as they were. After any
  sequence of calls the database, and with it the number of open records of every
  instrument, is what it was before the first.
\<close>

theorem create_rejected_before_any_write:
  "create s pd by db = (Throws DatabaseError, db)
   \<and> prices (snd (create s pd by db)) = prices db
   \<and> run_creates calls db = db
   \<and> open_count s' g (run_creates calls db) = open_count s' g db"
  by (simp add: create_throws run_creates_id)

text \<open>
  C2. \<open>create\<close> followed by \<open>getCurrentPrice\<close> or \<open>getCurrentRate\<close> for the same
  instrument returns no record: \<open>create\<close> throws the error of the database, and so does
  the lookup after it, whose statement is rejected as well.
\<close>

theorem create_then_get_current_both_rejected:
  "fst (create s pd by db) = Throws DatabaseError
   \<and> getCurrentPrice s g (snd (create s pd by db)) = (Throws DatabaseError, db)
   \<and> getCurrentRate g (snd (create Currency pd by db)) = (Throws DatabaseError, db)"
  by (simp add: create_throws getCurrentPrice_throws getCurrentRate_def)

text \<open>
  C6. \<open>update\<close> neither makes a new version of an open record nor amends a closed one:
  the lookup of the record by id is rejected by the database, and \<open>update\<close> throws that
  error with the tables as they were, for the closed record 1 and the open record 2 of
  the example as for every other id.
\<close>

theorem update_rejected_at_lookup:
  "update s ident pd by db = (Throws DatabaseError, db)
   \<and> prices (snd (update s ident pd by db)) = prices db
   \<and> effective_until closed_row = Some 7
   \<and> update Gold 1 example_data (Some 1) example_db = (Throws DatabaseError, example_db)
   \<and> effective_until open_row = None
   \<and> update Gold 2 example_data (Some 1) example_db = (Throws DatabaseError, example_db)"
  by (simp add: update_throws closed_row_def open_row_def)

text \<open>
  C9. \<open>update\<close> stores no supplied margin and no supplied \<open>isManual\<close>, falsy or not:
  with a margin of 0 and \<open>isManual\<close> false in its data it throws the error of the
  database at the lookup and leaves the tables as they were; the open record 2 of the
  example keeps its buy margin of 0.02.
\<close>

theorem update_with_falsy_margin_rejected:
  "update s ident (pd\<lparr>d_marginBuy := Some (Number 0), d_isManual := Some False\<rparr>) by db
     = (Throws DatabaseError, db)
   \<and> d_marginBuy example_update = Some (Number 0)
   \<and> fst (update Gold 2 example_update (Some 1) example_db) = Throws DatabaseError
   \<and> prices (snd (update Gold 2 example_update (Some 1) example_db)) Gold
        = [closed_row, open_row]
   \<and> margin_buy open_row = 2 / 100"
  by (simp add: update_throws example_update_def example_db_def open_row_def)

subsection \<open>Currency conversion\<close>

text \<open>
  C4. \<open>convert\<close> returns no result: the lookup of the first rate is rejected by the
  database and \<open>convert\<close> throws that error, for every amount and pair of codes. So it
  does for 100 US dollars into riyals at the buy rates 1 and 3.75 of the example.
\<close>

theorem convert_rejected_at_rate_lookup:
  "convert amount fromCode toCode ty db = (Throws DatabaseError, db)
   \<and> buy_price usd_row + buy_price usd_row * margin_buy usd_row = 1
   \<and> buy_price sar_row + buy_price sar_row * margin_buy sar_row = 375 / 100
   \<and> prices example_db Currency = [usd_row, sar_row]
   \<and> convert (Number 100) ''USD'' ''SAR'' ''buy'' example_db = (Throws DatabaseError, example_db)"
  by (simp add: convert_throws usd_row_def sar_row_def example_db_def)




subsection \<open>Market hours\<close>

text \<open>
  C8. \<open>isMarketOpen()\<close> answers \<open>false\<close> at every day and time, whatever hours and days
  are configured: each read of a setting is rejected by the database, \<open>get\<close> answers
  with its default \<open>''\<close>, so that the opening and the closing time are both \<open>''\<close> and the
  days are 1 to 6; no time string that has a character is at most \<open>''\<close>.
\<close>

theorem market_never_open:
  assumes "clock ''Asia/Riyadh'' = Some (currentDay, currentTime)" and "currentTime \<noteq> []"
  shows "StoreSettings_isMarketOpen clock db = (Returns False, db)"
  using assms
  by (simp add: StoreSettings_isMarketOpen_def getMarketSettings_defaults isMarketOpen_def)

text \<open>
  On a Monday at 12:00, with the hours 08:00 to 22:00 and the days 1 to 6 in
  \<open>store_settings\<close>, the market is reported closed.
\<close>

theorem market_closed_monday_noon:
  "store_settings example_db
     = [(''market_open_time'', ''08:00''), (''market_close_time'', ''22:00''),
        (''market_timezone'', ''Asia/Riyadh''), (''market_days'', ''1,2,3,4,5,6'')]
   \<and> monday_noon ''Asia/Riyadh'' = Some (1, ''12:00'')
   \<and> ''08:00'' \<le> ''12:00'' \<and> ''12:00'' < ''22:00''
   \<and> StoreSettings_isMarketOpen monday_noon example_db = (Returns False, example_db)"
proof -
  have clock: "monday_noon ''Asia/Riyadh'' = Some (1, ''12:00'')"
    by (simp add: monday_noon_def)
  have closed: "StoreSettings_isMarketOpen monday_noon example_db = (Returns False, example_db)"
    using market_never_open [of monday_noon 1 "''12:00''" example_db] clock by simp
  have settings: "store_settings example_db
     = [(''market_open_time'', ''08:00''), (''market_close_time'', ''22:00''),
        (''market_timezone'', ''Asia/Riyadh''), (''market_days'', ''1,2,3,4,5,6'')]"
    by (simp add: example_db_def)
  have order: "''08:00'' \<le> ''12:00'' \<and> ''12:00'' < ''22:00''"
    by simp
  from settings clock order closed show ?thesis by blast
qed

subsection \<open>CSRF protection\<close>

lemma csrf_exempt:
  "req_method req \<in> set [''GET'', ''HEAD'', ''OPTIONS''] \<Longrightarrow>
   csrfProtection limit req srv = (Next, srv)"
  by (simp add: csrfProtection_def)

lemma csrf_missing:
  "req_method req \<notin> set [''GET'', ''HEAD'', ''OPTIONS''] \<Longrightarrow> \<not> truthy_val (csrfToken_of req) \<Longrightarrow>
   csrfProtection limit req srv = (Json 403 ''CSRF_MISSING'', srv)"
  by (simp add: csrfProtection_def)

lemma token_mismatch_iff:
  "truthy_val tok \<Longrightarrow>
   token_mismatch tok sessionToken = (\<not> (\<exists>t. tok = JStr t \<and> sessionToken = Some t))"
  by (cases sessionToken) (auto simp add: token_mismatch_def)

lemma csrf_masked:
  "req_method req \<notin> set [''GET'', ''HEAD'', ''OPTIONS''] \<Longrightarrow> truthy_val (csrfToken_of req) \<Longrightarrow>
   \<not> (\<exists>t. csrfToken_of req = JStr t \<and> session_csrfToken req = Some t) \<Longrightarrow>
   maskSensitive limit (csrfToken_of req) 4 = Some masked \<Longrightarrow>
   csrfProtection limit req srv =
     (Json 403 ''CSRF_INVALID'',
      srv\<lparr>console := console srv
             @ [Log ''[SECURITY EVENT] INVALID_CSRF:'' [(''providedToken'', masked)]]\<rparr>)"
  by (simp add: csrfProtection_def token_mismatch_iff logSecurityEvent_def)

lemma csrf_mask_throws:
  "req_method req \<notin> set [''GET'', ''HEAD'', ''OPTIONS''] \<Longrightarrow> truthy_val (csrfToken_of req) \<Longrightarrow>
   \<not> (\<exists>t. csrfToken_of req = JStr t \<and> session_csrfToken req = Some t) \<Longrightarrow>
   maskSensitive limit (csrfToken_of req) 4 = None \<Longrightarrow>
   csrfProtection limit req srv =
     (Json 500 ''SECURITY_ERROR'',
      srv\<lparr>console := console srv @ [LogError ''CSRF protection error:'']\<rparr>)"
  by (simp add: csrfProtection_def token_mismatch_iff)

lemma csrf_pass_iff:
  "req_method req \<notin> set [''GET'', ''HEAD'', ''OPTIONS''] \<Longrightarrow>
   (fst (csrfProtection limit req srv) = Next)
     = (\<exists>t. t \<noteq> [] \<and> csrfToken_of req = JStr t \<and> session_csrfToken req = Some t)"
proof (cases "truthy_val (csrfToken_of req)")
  case False
  assume "req_method req \<notin> set [''GET'', ''HEAD'', ''OPTIONS'']"
  with False show ?thesis
    by (auto simp add: csrf_missing)
next
  case True
  assume m: "req_method req \<notin> set [''GET'', ''HEAD'', ''OPTIONS'']"
  show ?thesis
  proof (cases "\<exists>t. csrfToken_of req = JStr t \<and> session_csrfToken req = Some t")
    case eq: True
    with True m show ?thesis
      by (auto simp add: csrfProtection_def token_mismatch_iff)
  next
    case neq: False
    with True m show ?thesis
      by (cases "maskSensitive limit (csrfToken_of req) 4")
         (auto simp add: csrf_masked csrf_mask_throws)
  qed
qed

lemma csrf_keeps_database: "srv_db (snd (csrfProtection limit req srv)) = srv_db srv"
  by (cases "maskSensitive limit (csrfToken_of req) 4")
     (simp_all add: csrfProtection_def logSecurityEvent_def Let_def)

lemma mask_string: "maskSensitive limit (JStr t) visibleChars \<noteq> None"
  by (simp add: maskSensitive_def)

text \<open>
  C7. For a method other than GET, HEAD and OPTIONS the middleware answers 403
  \<open>CSRF_MISSING\<close> when none of the header, the body field and the query field holds a
  truthy value, and passes the request on exactly when the supplied value (the first
  truthy one of the three) is a string equal, character by character, to the token of
  the session. A supplied value that is not that string is never passed on: when it can
  be masked for the log, as every string can, the answer is 403 \<open>CSRF_INVALID\<close> and one
  \<open>[SECURITY EVENT] INVALID_CSRF:\<close> call of \<open>console.log\<close> with the masked value; when
  masking throws, the answer is 500 \<open>SECURITY_ERROR\<close> and one call of \<open>console.error\<close>.
  In no case is the database touched: no audit entry is written. GET, HEAD and OPTIONS
  requests pass unchecked.
\<close>

theorem csrf_protection_outcomes:
  "(req_method req \<in> set [''GET'', ''HEAD'', ''OPTIONS''] \<longrightarrow>
      csrfProtection limit req srv = (Next, srv))
   \<and> (req_method req \<notin> set [''GET'', ''HEAD'', ''OPTIONS''] \<longrightarrow>
        (\<not> truthy_val (csrfToken_of req) \<longrightarrow>
           csrfProtection limit req srv = (Json 403 ''CSRF_MISSING'', srv))
      \<and> ((fst (csrfProtection limit req srv) = Next)
           = (\<exists>t. t \<noteq> [] \<and> csrfToken_of req = JStr t \<and> session_csrfToken req = Some t))
      \<and> (truthy_val (csrfToken_of req)
           \<and> \<not> (\<exists>t. csrfToken_of req = JStr t \<and> session_csrfToken req = Some t) \<longrightarrow>
           (\<forall>masked. maskSensitive limit (csrfToken_of req) 4 = Some masked \<longrightarrow>
              csrfProtection limit req srv =
                (Json 403 ''CSRF_INVALID'',
                 srv\<lparr>console := console srv
                        @ [Log ''[SECURITY EVENT] INVALID_CSRF:'' [(''providedToken'', masked)]]\<rparr>))
         \<and> (maskSensitive limit (csrfToken_of req) 4 = None \<longrightarrow>
              csrfProtection limit req srv =
                (Json 500 ''SECURITY_ERROR'',
                 srv\<lparr>console := console srv @ [LogError ''CSRF protection error:'']\<rparr>))))
   \<and> (\<forall>t. maskSensitive limit (JStr t) 4 \<noteq> None)
   \<and> srv_db (snd (csrfProtection limit req srv)) = srv_db srv"
  using csrf_exempt [of req limit srv] csrf_missing [of req limit srv]
    csrf_pass_iff [of req limit srv] csrf_masked [of req limit _ srv]
    csrf_mask_throws [of req limit srv] csrf_keeps_database [of limit req srv]
    mask_string [of limit _ 4]
  by blast

lemma example_token: "csrfToken_of example_request = JStr ''0123456789abcdef''"
  by (simp add: csrfToken_of_def example_request_def val_or_def)

lemma example_mask:
  "maskSensitive example_limit (JStr ''0123456789abcdef'') 4 = Some ''0123********cdef''"
  by (simp add: maskSensitive_def)

text \<open>
  A POST whose token differs from the session's in the case of one letter is answered
  403 \<open>CSRF_INVALID\<close>, with one line on the console.
\<close>

theorem csrf_mismatch_example:
  "req_method example_request = ''POST''
   \<and> csrfToken_of example_request = JStr ''0123456789abcdef''
   \<and> session_csrfToken example_request = Some ''0123456789abcdeF''
   \<and> csrfProtection example_limit example_request example_server =
       (Json 403 ''CSRF_INVALID'',
        example_server\<lparr>console :=
          [Log ''[SECURITY EVENT] INVALID_CSRF:'' [(''providedToken'', ''0123********cdef'')]]\<rparr>)"
proof -
  have m: "req_method example_request = ''POST''"
    and s: "session_csrfToken example_request = Some ''0123456789abcdeF''"
    by (simp_all add: example_request_def)
  have nm: "req_method example_request \<notin> set [''GET'', ''HEAD'', ''OPTIONS'']"
    by (simp add: m)
  have tr: "truthy_val (csrfToken_of example_request)"
    by (simp add: example_token)
  have ne: "\<not> (\<exists>t. csrfToken_of example_request = JStr t
                  \<and> session_csrfToken example_request = Some t)"
    by (simp add: example_token s)
  have mk: "maskSensitive example_limit (csrfToken_of example_request) 4
              = Some ''0123********cdef''"
    by (simp add: example_token example_mask)
  have c: "console example_server = []"
    by (simp add: example_server_def)
  from csrf_protection_outcomes [of example_request example_limit example_server] nm tr ne mk
  have "csrfProtection example_limit example_request example_server =
          (Json 403 ''CSRF_INVALID'',
           example_server\<lparr>console := console example_server
             @ [Log ''[SECURITY EVENT] INVALID_CSRF:'' [(''providedToken'', ''0123********cdef'')]]\<rparr>)"
    by blast
  with m s c example_token show ?thesis by simp
qed

text \<open>
  The same request leaves the audit log empty: a mismatched token produces no audit
  entry.
\<close>

theorem csrf_mismatch_writes_no_audit_entry:
  "fst (csrfProtection example_limit example_request example_server) = Json 403 ''CSRF_INVALID''
   \<and> audit_log (srv_db example_server) = []
   \<and> audit_log (srv_db (snd (csrfProtection example_limit example_request example_server))) = []"
proof -
  have "req_method example_request \<notin> set [''GET'', ''HEAD'', ''OPTIONS'']"
    by (simp add: example_request_def)
  moreover have "truthy_val (csrfToken_of example_request)"
    by (simp add: example_token)
  moreover have "session_csrfToken example_request = Some ''0123456789abcdeF''"
    by (simp add: example_request_def)
  then have "\<not> (\<exists>t. csrfToken_of example_request = JStr t
                     \<and> session_csrfToken example_request = Some t)"
    by (simp add: example_token)
  moreover have "maskSensitive example_limit (csrfToken_of example_request) 4
                   = Some ''0123********cdef''"
    by (simp add: example_token example_mask)
  ultimately have "csrfProtection example_limit example_request example_server =
      (Json 403 ''CSRF_INVALID'',
       example_server\<lparr>console := console example_server
         @ [Log ''[SECURITY EVENT] INVALID_CSRF:'' [(''providedToken'', ''0123********cdef'')]]\<rparr>)"
    by (rule csrf_masked)
  then show ?thesis
    by (simp add: example_server_def example_db_def)
qed

text \<open>
  A POST whose body carries the object \<open>{ length: -1 }\<close> for a token is answered 500:
  masking it throws.
\<close>

lemma csrf_object_token_example:
  "csrfProtection example_limit example_object_request example_server =
     (Json 500 ''SECURITY_ERROR'',
      example_server\<lparr>console := [LogError ''CSRF protection error:'']\<rparr>)"
  by (simp add: csrfProtection_def csrfToken_of_def val_or_def token_mismatch_def
      maskSensitive_def repeat_char_def example_object_request_def example_server_def)

subsection \<open>Deleting users\<close>



end
